theory Spec2Isabelle
  imports Complex_Main "HOL-Library.AList"
begin

section \<open>JavaScript values\<close>

text \<open>
  The adapter works on untyped data: whatever \<^verbatim>\<open>JSON.parse\<close> returned for a stream line
  or a push event. A value is one of the JSON shapes, or \<^verbatim>\<open>undefined\<close> (the value of a
  property that is not there). Numbers are kept as rationals: the adapter only ever asks
  whether a number is zero. An object is the list of its properties; a property is read
  with \<open>map_of\<close>.

  A JavaScript string is modelled as a \<open>string\<close>, one \<open>char\<close> per code unit, so the
  model covers text whose code units are below 256.
\<close>

datatype jsval =
    JUndefined
  | JNull
  | JBool bool
  | JNum rat
  | JStr string
  | JArr "jsval list"
  | JObj "(string \<times> jsval) list"

text \<open>Truthiness, as \<^verbatim>\<open>if (v)\<close>, \<^verbatim>\<open>v && w\<close> and \<^verbatim>\<open>v || w\<close> test it.\<close>

fun truthy :: "jsval \<Rightarrow> bool" where
  "truthy JUndefined = False"
| "truthy JNull = False"
| "truthy (JBool b) = b"
| "truthy (JNum n) = (n \<noteq> 0)"
| "truthy (JStr s) = (s \<noteq> [])"
| "truthy (JArr xs) = True"
| "truthy (JObj kvs) = True"

text \<open>\<^verbatim>\<open>a || b\<close>: the left operand when it is truthy, the right operand otherwise.\<close>

definition js_or :: "jsval \<Rightarrow> jsval \<Rightarrow> jsval" where
  "js_or a b = (if truthy a then a else b)"

text \<open>
  \<^verbatim>\<open>data.k\<close> on a value that is neither \<^verbatim>\<open>null\<close> nor \<^verbatim>\<open>undefined\<close>, for the property
  names the adapter reads (none of them is inherited from a prototype of a JSON value):
  the own property of an object, \<^verbatim>\<open>undefined\<close> on anything else.
\<close>

fun get_prop :: "jsval \<Rightarrow> string \<Rightarrow> jsval" where
  "get_prop (JObj kvs) k = (case map_of kvs k of None \<Rightarrow> JUndefined | Some v \<Rightarrow> v)"
| "get_prop v k = JUndefined"

text \<open>Exceptions are values: every operation returns how it ended beside the new state.\<close>

datatype js_error =
    Error string
  | StatusError string nat
  | TypeError
  | SyntaxError
  | FetchError
  | StreamError

datatype 'a outcome = Return 'a | Throw js_error

section \<open>Strings\<close>

text \<open>
  \<^verbatim>\<open>String.prototype.trim\<close> strips white space and line terminators from both ends; among
  the code units below 256 these are TAB, LF, VT, FF, CR, SPACE and NBSP.
\<close>

definition is_white_space :: "char \<Rightarrow> bool" where
  "is_white_space c =
     (c \<in> set [CHR 0x09, CHR 0x0A, CHR 0x0B, CHR 0x0C, CHR 0x0D, CHR 0x20, CHR 0xA0])"

definition trim :: "string \<Rightarrow> string" where
  "trim s = rev (dropWhile is_white_space (rev (dropWhile is_white_space s)))"

text \<open>\<^verbatim>\<open>s.split(sep)\<close> for a one-character separator: never empty, \<open>[[]]\<close> on the empty string.\<close>

fun split_on :: "char \<Rightarrow> string \<Rightarrow> string list" where
  "split_on sep [] = [[]]"
| "split_on sep (c # cs) =
     (if c = sep then [] # split_on sep cs
      else (case split_on sep cs of [] \<Rightarrow> [[c]] | l # ls \<Rightarrow> (c # l) # ls))"

definition newline :: char where
  "newline = CHR 0x0A"

section \<open>Transport client: \<^verbatim>\<open>OpenCodeClient.sendMessage\<close>\<close>

text \<open>
  What the server answers to a \<^verbatim>\<open>fetch\<close>: the call is rejected, or there is a response
  with its \<^verbatim>\<open>ok\<close> flag, its status and a payload. For the message endpoint the payload is
  the optional body: the text of the chunks the reader yields (as the streaming decoder
  returns them), and whether the stream then ends or a read fails.
\<close>

datatype 'a fetched = FetchRejected | Response bool nat 'a

datatype stream_end = StreamDone | StreamFails

type_synonym body = "(string list \<times> stream_end) option"

datatype message_part =
    TextPart string
  | ToolInvocationPart string string jsval string jsval
  | FilePart string string

text \<open>
  The read loop of \<^verbatim>\<open>sendMessage\<close>: \<open>buffer\<close> is the text after the last newline seen so
  far. Each chunk is appended, the buffer is split at newlines, the last piece
  (\<^verbatim>\<open>lines.pop() || ''\<close>) becomes the new buffer, and every other piece goes to
  \<open>onChunk\<close> when it is not blank and a callback was given. The callback acts on a state
  of any type and is taken to return normally, as the one callback the adapter passes
  does.
\<close>

fun read_loop :: "(string \<Rightarrow> 's \<Rightarrow> 's) option \<Rightarrow> string list \<Rightarrow> string \<Rightarrow> 's \<Rightarrow> string \<times> 's" where
  "read_loop onChunk [] buffer s = (buffer, s)"
| "read_loop onChunk (v # rest) buffer s =
     (let lines = split_on newline (buffer @ v);
          buffer' = (if lines = [] then [] else last lines);
          s' = fold (\<lambda>line t. case onChunk of
                       None \<Rightarrow> t
                     | Some f \<Rightarrow> if trim line \<noteq> [] then f line t else t)
                 (butlast lines) s
      in read_loop onChunk rest buffer' s')"

definition sendMessage ::
  "string \<Rightarrow> message_part list \<Rightarrow> (string \<Rightarrow> 's \<Rightarrow> 's) option \<Rightarrow> body fetched \<Rightarrow> 's
     \<Rightarrow> unit outcome \<times> 's" where
  "sendMessage sessionId parts onChunk reply s =
     (case reply of
        FetchRejected \<Rightarrow> (Throw FetchError, s)
      | Response ok status body \<Rightarrow>
          if \<not> ok then (Throw (StatusError ''Failed to send message: '' status), s)
          else (case body of
             None \<Rightarrow> (Throw (Error ''No response body''), s)
           | Some (chunks, fin) \<Rightarrow>
               (case read_loop onChunk chunks [] s of
                  (buffer, s') \<Rightarrow>
                    (case fin of
                       StreamFails \<Rightarrow> (Throw StreamError, s')
                     | StreamDone \<Rightarrow>
                         (Return (),
                          (case onChunk of
                             None \<Rightarrow> s'
                           | Some f \<Rightarrow> if trim buffer \<noteq> [] then f buffer s' else s'))))))"

text \<open>The callback that only records the lines it is called with.\<close>

definition record_line :: "string \<Rightarrow> string list \<Rightarrow> string list" where
  "record_line line calls = calls @ [line]"

text \<open>
  What the prose of the transport contract asks for: every complete (newline-terminated)
  line of the whole text, then the trailing partial line when it is not empty.
\<close>

definition spec_lines :: "string list \<Rightarrow> string list" where
  "spec_lines chunks =
     (let ls = split_on newline (concat chunks)
      in butlast ls @ (if last ls \<noteq> [] then [last ls] else []))"

text \<open>What the code delivers: the pieces of the whole text that are not blank.\<close>

definition nonblank_lines :: "string list \<Rightarrow> string list" where
  "nonblank_lines chunks = filter (\<lambda>l. trim l \<noteq> []) (split_on newline (concat chunks))"

section \<open>Canonical messages\<close>

text \<open>
  The messages the adapter hands to its listeners (\<^verbatim>\<open>AgentMessage\<close>). The casts
  \<^verbatim>\<open>as string\<close> of the source convert nothing at run time, so a field holds whatever
  value the record carried. The optional \<^verbatim>\<open>detail\<close> of a status is absent unless the
  status is \<^verbatim>\<open>error\<close> (here \<open>Failed\<close>).
\<close>

datatype status = Running | Idle | Failed | Stopped

datatype agent_message =
    Status status "jsval option"
  | ModelOutput jsval
  | ToolCall jsval jsval jsval
  | ToolResult jsval jsval jsval
  | FsEdit jsval jsval jsval
  | TerminalOutput jsval
  | PermissionRequest jsval jsval jsval
  | PermissionResponse string bool

datatype variant =
    VStatus | VModelOutput | VToolCall | VToolResult | VFsEdit | VTerminalOutput
  | VPermissionRequest | VPermissionResponse

fun variant_of :: "agent_message \<Rightarrow> variant" where
  "variant_of (Status st detail) = VStatus"
| "variant_of (ModelOutput textDelta) = VModelOutput"
| "variant_of (ToolCall toolName args callId) = VToolCall"
| "variant_of (ToolResult toolName result callId) = VToolResult"
| "variant_of (FsEdit description diff path) = VFsEdit"
| "variant_of (TerminalOutput d) = VTerminalOutput"
| "variant_of (PermissionRequest i reason payload) = VPermissionRequest"
| "variant_of (PermissionResponse i approved) = VPermissionResponse"

section \<open>The platform\<close>

text \<open>
  The builtins the adapter calls are parameters of the model: \<open>json_parse\<close> is
  \<^verbatim>\<open>JSON.parse\<close> (\<open>None\<close> when it throws), \<open>randomUUID n\<close> is what the \<open>n\<close>-th call of
  \<^verbatim>\<open>crypto.randomUUID\<close> in this process returns, and \<open>has_EventSource\<close> says whether
  \<^verbatim>\<open>typeof EventSource !== 'undefined'\<close>.
\<close>

record platform =
  json_parse :: "string \<Rightarrow> jsval option"
  randomUUID :: "nat \<Rightarrow> string"
  has_EventSource :: bool

section \<open>State\<close>

text \<open>
  The fields of \<^verbatim>\<open>OpenCodeClient\<close> (\<open>eventSource\<close>: whether the connection object is
  there; \<open>eventHandlers\<close>: the subscribed closures, in insertion order) and of
  \<^verbatim>\<open>OpenCodeBackend\<close>, and what the model keeps of the world around them: listeners and
  closures are known by a number, a promise by the number it was created with.
  \<open>emitted\<close> records every call of \<^verbatim>\<open>emit\<close>, \<open>deliveries\<close> every call of a listener,
  \<open>settled\<close> the promises that were resolved, \<open>timers\<close> the delay of every
  \<^verbatim>\<open>setTimeout\<close>. Listeners are observers: they return normally and do not call back
  into the adapter.
\<close>

record backend =
  eventSource :: bool
  eventHandlers :: "nat list"
  messageHandlers :: "nat list"
  currentSessionId :: "string option"
  eventUnsubscribe :: "nat option"
  responseComplete :: "nat option"
  responseResolve :: "nat option"
  emitted :: "agent_message list"
  deliveries :: "(nat \<times> agent_message) list"
  settled :: "nat list"
  promises :: nat
  closures :: nat
  uuids_drawn :: nat
  timers :: "nat list"

definition new_backend :: backend where
  "new_backend =
     \<lparr>eventSource = False, eventHandlers = [], messageHandlers = [],
      currentSessionId = None, eventUnsubscribe = None,
      responseComplete = None, responseResolve = None,
      emitted = [], deliveries = [], settled = [], promises = 0, closures = 0,
      uuids_drawn = 0, timers = []\<rparr>"

text \<open>What listener \<open>h\<close> has been called with, in order.\<close>

definition observed :: "nat \<Rightarrow> backend \<Rightarrow> agent_message list" where
  "observed h s = map snd (filter (\<lambda>d. fst d = h) (deliveries s))"

text \<open>The calls of \<^verbatim>\<open>emit\<close> made between state \<open>s\<close> and a later state \<open>s'\<close>.\<close>

definition emitted_since :: "backend \<Rightarrow> backend \<Rightarrow> agent_message list" where
  "emitted_since s s' = drop (length (emitted s)) (emitted s')"

section \<open>Transport client: sessions and push events\<close>

text \<open>
  \<^verbatim>\<open>connectToEvents\<close> adds a new closure to the set, opens the connection when there is
  none and the platform has \<^verbatim>\<open>EventSource\<close>, and returns the closure that unsubscribes
  (here: the number of the subscribed closure, undone by \<open>unsubscribe\<close>).
\<close>

definition connectToEvents :: "platform \<Rightarrow> backend \<Rightarrow> nat \<times> backend" where
  "connectToEvents env s =
     (let c = closures s;
          s1 = s\<lparr>closures := Suc c, eventHandlers := eventHandlers s @ [c]\<rparr>;
          s2 = (if \<not> eventSource s1 \<and> has_EventSource env
                then s1\<lparr>eventSource := True\<rparr> else s1)
      in (c, s2))"

definition unsubscribe :: "nat \<Rightarrow> backend \<Rightarrow> backend" where
  "unsubscribe c s =
     (let s1 = s\<lparr>eventHandlers := removeAll c (eventHandlers s)\<rparr>
      in if eventHandlers s1 = [] \<and> eventSource s1 then s1\<lparr>eventSource := False\<rparr> else s1)"

definition disconnect :: "backend \<Rightarrow> backend" where
  "disconnect s =
     (let s1 = (if eventSource s then s\<lparr>eventSource := False\<rparr> else s)
      in s1\<lparr>eventHandlers := []\<rparr>)"

text \<open>
  \<^verbatim>\<open>createSession\<close>: the payload of the reply is the \<^verbatim>\<open>id\<close> of the decoded body, \<open>None\<close>
  when the body does not decode.
\<close>

definition createSession :: "string option fetched \<Rightarrow> string outcome" where
  "createSession reply =
     (case reply of
        FetchRejected \<Rightarrow> Throw FetchError
      | Response ok status payload \<Rightarrow>
          if \<not> ok then Throw (StatusError ''Failed to create session: '' status)
          else (case payload of None \<Rightarrow> Throw SyntaxError | Some sid \<Rightarrow> Return sid))"

definition abortSession :: "string \<Rightarrow> unit fetched \<Rightarrow> unit outcome" where
  "abortSession sessionId reply =
     (case reply of
        FetchRejected \<Rightarrow> Throw FetchError
      | Response ok status payload \<Rightarrow>
          if \<not> ok \<and> status \<noteq> 404
          then Throw (StatusError ''Failed to abort session: '' status)
          else Return ())"

section \<open>Session adapter: \<^verbatim>\<open>OpenCodeBackend\<close>\<close>

definition emit :: "agent_message \<Rightarrow> backend \<Rightarrow> backend" where
  "emit message s =
     s\<lparr>emitted := emitted s @ [message],
       deliveries := deliveries s @ map (\<lambda>handler. (handler, message)) (messageHandlers s)\<rparr>"

text \<open>\<^verbatim>\<open>v || crypto.randomUUID()\<close>: the call is made only when \<open>v\<close> is falsy.\<close>

definition or_randomUUID :: "platform \<Rightarrow> jsval \<Rightarrow> backend \<Rightarrow> jsval \<times> backend" where
  "or_randomUUID env v s =
     (if truthy v then (v, s)
      else (JStr (randomUUID env (uuids_drawn s)), s\<lparr>uuids_drawn := Suc (uuids_drawn s)\<rparr>))"

text \<open>
  \<^verbatim>\<open>processOpenCodeData\<close>. Reading \<^verbatim>\<open>data.type\<close> throws a \<^verbatim>\<open>TypeError\<close> on \<^verbatim>\<open>null\<close>;
  the \<^verbatim>\<open>switch\<close> compares with \<^verbatim>\<open>===\<close>, so only a string selects a case.
\<close>

definition processOpenCodeData :: "platform \<Rightarrow> jsval \<Rightarrow> backend \<Rightarrow> unit outcome \<times> backend" where
  "processOpenCodeData env data s =
     (if data = JNull \<or> data = JUndefined then (Throw TypeError, s)
      else
        let eventType = get_prop data ''type'' in
        if eventType = JStr ''text'' \<or> eventType = JStr ''token'' \<or> eventType = JStr ''content''
        then
          (Return (),
           emit (ModelOutput
                  (js_or (js_or (get_prop data ''content'') (get_prop data ''text''))
                         (get_prop data ''delta''))) s)
        else if eventType = JStr ''tool_call'' \<or> eventType = JStr ''tool-call''
        then
          (let toolName = js_or (js_or (get_prop data ''name'') (get_prop data ''toolName''))
                                (JStr ''unknown'');
               args = js_or (js_or (get_prop data ''arguments'') (get_prop data ''args''))
                            (JObj []);
               (callId, s1) =
                  or_randomUUID env (js_or (get_prop data ''id'') (get_prop data ''callId'')) s
           in (Return (), emit (ToolCall toolName args callId) s1))
        else if eventType = JStr ''tool_result'' \<or> eventType = JStr ''tool-result''
        then
          (Return (),
           emit (ToolResult
                  (js_or (js_or (get_prop data ''name'') (get_prop data ''toolName''))
                         (JStr ''unknown''))
                  (js_or (get_prop data ''result'') (get_prop data ''output''))
                  (js_or (js_or (get_prop data ''id'') (get_prop data ''callId'')) (JStr []))) s)
        else if eventType = JStr ''file_edit'' \<or> eventType = JStr ''fs-edit''
        then
          (Return (),
           emit (FsEdit
                  (js_or (js_or (get_prop data ''description'') (get_prop data ''summary''))
                         (JStr []))
                  (get_prop data ''diff'')
                  (get_prop data ''path'')) s)
        else if eventType = JStr ''terminal'' \<or> eventType = JStr ''terminal-output''
        then
          (Return (),
           emit (TerminalOutput
                  (js_or (js_or (get_prop data ''output'') (get_prop data ''data''))
                         (JStr []))) s)
        else if eventType = JStr ''permission_request'' \<or> eventType = JStr ''permission-request''
        then
          (let (i, s1) = or_randomUUID env (get_prop data ''id'') s
           in (Return (),
               emit (PermissionRequest i
                      (js_or (js_or (get_prop data ''reason'') (get_prop data ''message''))
                             (JStr []))
                      (js_or (get_prop data ''payload'') data)) s1))
        else if eventType = JStr ''error''
        then
          (Return (),
           emit (Status Failed
                  (Some (js_or (js_or (get_prop data ''message'') (get_prop data ''error''))
                               (JStr ''Unknown error'')))) s)
        else if eventType = JStr ''done'' \<or> eventType = JStr ''complete''
                \<or> eventType = JStr ''finished''
        then (Return (), emit (Status Idle None) s)
        else if truthy (js_or (get_prop data ''text'') (get_prop data ''content''))
        then
          (Return (),
           emit (ModelOutput (js_or (get_prop data ''text'') (get_prop data ''content''))) s)
        else (Return (), s))"

text \<open>
  \<^verbatim>\<open>handleStreamChunk\<close>: the \<^verbatim>\<open>try\<close> block covers both the parse and the processing, so
  an exception of either lands in the \<^verbatim>\<open>catch\<close>, which passes a line that is not blank
  on as raw text.
\<close>

definition handleStreamChunk :: "platform \<Rightarrow> string \<Rightarrow> backend \<Rightarrow> unit outcome \<times> backend" where
  "handleStreamChunk env chunk s =
     (case (case json_parse env chunk of
              None \<Rightarrow> (Throw SyntaxError, s)
            | Some data \<Rightarrow> processOpenCodeData env data s) of
        (Return u, s1) \<Rightarrow> (Return (), s1)
      | (Throw e, s1) \<Rightarrow>
          if trim chunk \<noteq> [] then (Return (), emit (ModelOutput (JStr chunk)) s1)
          else (Return (), s1))"

text \<open>
  \<^verbatim>\<open>a !== b\<close> where \<open>b\<close> is the stored session handle (a string or \<^verbatim>\<open>null\<close>): equal only
  when both are the same string, or both \<^verbatim>\<open>null\<close>.
\<close>

definition strict_neq_handle :: "jsval \<Rightarrow> string option \<Rightarrow> bool" where
  "strict_neq_handle v h =
     (case v of
        JStr a \<Rightarrow> h \<noteq> Some a
      | JNull \<Rightarrow> h \<noteq> None
      | _ \<Rightarrow> True)"

definition handleOpenCodeEvent :: "platform \<Rightarrow> jsval \<Rightarrow> backend \<Rightarrow> unit outcome \<times> backend" where
  "handleOpenCodeEvent env event s =
     (if event = JNull \<or> event = JUndefined then (Throw TypeError, s)
      else if truthy (get_prop event ''sessionId'')
              \<and> strict_neq_handle (get_prop event ''sessionId'') (currentSessionId s)
      then (Return (), s)
      else processOpenCodeData env event s)"

text \<open>
  The \<^verbatim>\<open>onmessage\<close> handler of the push connection: a payload that does not parse is
  skipped; otherwise every subscribed closure (each one calls \<open>handleOpenCodeEvent\<close>) is
  called in turn, and an exception of one of them ends the round silently.
\<close>

fun fan_out :: "platform \<Rightarrow> jsval \<Rightarrow> nat list \<Rightarrow> backend \<Rightarrow> unit outcome \<times> backend" where
  "fan_out env data [] s = (Return (), s)"
| "fan_out env data (h # hs) s =
     (case handleOpenCodeEvent env data s of
        (Throw e, s1) \<Rightarrow> (Throw e, s1)
      | (Return u, s1) \<Rightarrow> fan_out env data hs s1)"

definition onmessage :: "platform \<Rightarrow> string \<Rightarrow> backend \<Rightarrow> backend" where
  "onmessage env payload s =
     (if \<not> eventSource s then s
      else (case json_parse env payload of
              None \<Rightarrow> s
            | Some data \<Rightarrow> snd (fan_out env data (eventHandlers s) s)))"

text \<open>
  \<^verbatim>\<open>sendPrompt\<close>, with the reply of the server to the message request as an argument.
  The new promise and its resolver are both known by the number of the promise. When
  \<^verbatim>\<open>sendMessage\<close> throws, neither \<^verbatim>\<open>status(idle)\<close> is emitted nor the promise resolved.
\<close>

definition sendPrompt ::
  "platform \<Rightarrow> string \<Rightarrow> string \<Rightarrow> body fetched \<Rightarrow> backend \<Rightarrow> unit outcome \<times> backend" where
  "sendPrompt env sessionId prompt reply s =
     (let p = promises s;
          s1 = s\<lparr>responseComplete := Some p, responseResolve := Some p, promises := Suc p\<rparr>;
          parts = [TextPart prompt];
          s2 = emit (Status Running None) s1
      in case sendMessage sessionId parts
                (Some (\<lambda>chunk t. snd (handleStreamChunk env chunk t))) reply s2 of
           (Throw e, s3) \<Rightarrow> (Throw e, s3)
         | (Return u, s3) \<Rightarrow>
             (let s4 = emit (Status Idle None) s3
              in (Return (),
                  (case responseResolve s4 of
                     None \<Rightarrow> s4
                   | Some r \<Rightarrow> s4\<lparr>settled := List.insert r (settled s4),
                                  responseResolve := None\<rparr>))))"

definition startSession ::
  "platform \<Rightarrow> string option \<Rightarrow> string option fetched \<Rightarrow> body fetched \<Rightarrow> backend
     \<Rightarrow> string outcome \<times> backend" where
  "startSession env initialPrompt create_reply send_reply s =
     (case createSession create_reply of
        Throw e \<Rightarrow> (Throw e, s)
      | Return sid \<Rightarrow>
          (let s1 = s\<lparr>currentSessionId := Some sid\<rparr>;
               (c, s2) = connectToEvents env s1;
               s3 = s2\<lparr>eventUnsubscribe := Some c\<rparr>;
               s4 = emit (Status Running None) s3
           in case initialPrompt of
                None \<Rightarrow> (Return sid, s4)
              | Some prompt \<Rightarrow>
                  if prompt = [] then (Return sid, s4)
                  else (case sendPrompt env sid prompt send_reply s4 of
                          (Throw e, s5) \<Rightarrow> (Throw e, s5)
                        | (Return u, s5) \<Rightarrow> (Return sid, s5))))"

definition cancel :: "string \<Rightarrow> unit fetched \<Rightarrow> backend \<Rightarrow> unit outcome \<times> backend" where
  "cancel sessionId reply s =
     (case abortSession sessionId reply of
        Throw e \<Rightarrow> (Throw e, s)
      | Return u \<Rightarrow> (Return (), emit (Status Idle None) s))"

text \<open>The listeners are a \<^verbatim>\<open>Set\<close>: adding one that is there changes nothing.\<close>

definition onMessage :: "nat \<Rightarrow> backend \<Rightarrow> backend" where
  "onMessage handler s =
     (if handler \<in> set (messageHandlers s) then s
      else s\<lparr>messageHandlers := messageHandlers s @ [handler]\<rparr>)"

definition offMessage :: "nat \<Rightarrow> backend \<Rightarrow> backend" where
  "offMessage handler s = s\<lparr>messageHandlers := removeAll handler (messageHandlers s)\<rparr>"

definition respondToPermission :: "string \<Rightarrow> bool \<Rightarrow> backend \<Rightarrow> unit outcome \<times> backend" where
  "respondToPermission requestId approved s =
     (Return (), emit (PermissionResponse requestId approved) s)"

definition dispose :: "backend \<Rightarrow> unit outcome \<times> backend" where
  "dispose s =
     (let s1 = (case eventUnsubscribe s of
                  None \<Rightarrow> s
                | Some c \<Rightarrow> (unsubscribe c s)\<lparr>eventUnsubscribe := None\<rparr>);
          s2 = disconnect s1;
          s3 = s2\<lparr>messageHandlers := []\<rparr>
      in (Return (), emit (Status Stopped None) s3))"

section \<open>Waiting for the response\<close>

text \<open>
  \<^verbatim>\<open>waitForResponseComplete\<close> up to its \<^verbatim>\<open>await\<close>: without a stored promise it returns at
  once; otherwise it arms a timer and waits for the race of the stored promise and the
  timer. The argument is optional, \<open>120000\<close> is its default. The timer is known by its
  position in \<open>timers\<close>.
\<close>

datatype waiting = Returned | Racing nat nat

definition waitForResponseComplete :: "nat option \<Rightarrow> backend \<Rightarrow> waiting \<times> backend" where
  "waitForResponseComplete timeoutArg s =
     (let timeoutMs = (case timeoutArg of None \<Rightarrow> 120000 | Some t \<Rightarrow> t)
      in case responseComplete s of
           None \<Rightarrow> (Returned, s)
         | Some p \<Rightarrow> (Racing p (length (timers s)), s\<lparr>timers := timers s @ [timeoutMs]\<rparr>))"

text \<open>
  What happens after the call: promise \<open>p\<close> is resolved, or timer \<open>t\<close> fires.
  \<^verbatim>\<open>Promise.race\<close> settles as the first of its two inputs to settle does: the call
  returns when that is the promise and throws \<^verbatim>\<open>Error('Response timeout')\<close> when it is
  the timer. \<open>None\<close>: neither has happened yet, the caller is still waiting.
\<close>

datatype happening = Resolved nat | Fired nat

fun race :: "nat \<Rightarrow> nat \<Rightarrow> happening list \<Rightarrow> unit outcome option" where
  "race p t [] = None"
| "race p t (e # es) =
     (if e = Resolved p then Some (Return ())
      else if e = Fired t then Some (Throw (Error ''Response timeout''))
      else race p t es)"

text \<open>
  The outcome of a call made in state \<open>s\<close> when \<open>later\<close> happens after it. A promise that
  is already resolved at the call wins the race at once.
\<close>

definition wait_outcome :: "nat option \<Rightarrow> backend \<Rightarrow> happening list \<Rightarrow> unit outcome option" where
  "wait_outcome timeoutArg s later =
     (case fst (waitForResponseComplete timeoutArg s) of
        Returned \<Rightarrow> Some (Return ())
      | Racing p t \<Rightarrow> if p \<in> set (settled s) then Some (Return ()) else race p t later)"

section \<open>Sample inputs\<close>

text \<open>
  A platform for the concrete runs below: its parser knows the two lines of the
  end-to-end scenario and the document \<^verbatim>\<open>null\<close>, and rejects every other text; its
  identifiers are pairwise different.
\<close>

definition line_text_hi :: string where
  \<open>line_text_hi = ''{"type":"text","content":"Hi"}''\<close>

definition line_done :: string where
  \<open>line_done = ''{"type":"done"}''\<close>

definition sample_parse :: "string \<Rightarrow> jsval option" where
  "sample_parse text =
     (if text = line_text_hi
      then Some (JObj [(''type'', JStr ''text''), (''content'', JStr ''Hi'')])
      else if text = line_done then Some (JObj [(''type'', JStr ''done'')])
      else if text = ''null'' then Some JNull
      else None)"

definition sample_uuid :: "nat \<Rightarrow> string" where
  "sample_uuid n = ''uuid-'' @ replicate n (CHR ''x'')"

definition sample_env :: platform where
  "sample_env = \<lparr>json_parse = sample_parse, randomUUID = sample_uuid, has_EventSource = True\<rparr>"

text \<open>The record with its \<^verbatim>\<open>type\<close> set to \<open>t\<close>.\<close>

definition with_type :: "string \<Rightarrow> (string \<times> jsval) list \<Rightarrow> jsval" where
  "with_type t kvs = JObj (AList.update ''type'' (JStr t) kvs)"

section \<open>Notions the claims use\<close>

text \<open>
  The discriminators that come in an underscore and in a hyphen spelling, with the
  canonical variant of their family.
\<close>

definition spelling_pairs :: "(string \<times> string \<times> variant) list" where
  "spelling_pairs =
     [(''tool_call'', ''tool-call'', VToolCall),
      (''tool_result'', ''tool-result'', VToolResult),
      (''file_edit'', ''fs-edit'', VFsEdit),
      (''permission_request'', ''permission-request'', VPermissionRequest)]"

text \<open>
  The alias rule as the table words it, ``first present wins'': the value of the first
  of the listed properties that the record has.
\<close>

fun first_present :: "(string \<times> jsval) list \<Rightarrow> string list \<Rightarrow> jsval" where
  "first_present kvs [] = JUndefined"
| "first_present kvs (k # ks) =
     (case map_of kvs k of Some v \<Rightarrow> v | None \<Rightarrow> first_present kvs ks)"

text \<open>
  The records for which \<^verbatim>\<open>crypto.randomUUID\<close> is called: a tool call without a truthy
  \<^verbatim>\<open>id\<close> or \<^verbatim>\<open>callId\<close>, a permission request without a truthy \<^verbatim>\<open>id\<close>.
\<close>

definition needs_fresh_id :: "jsval \<Rightarrow> bool" where
  "needs_fresh_id data =
     (((get_prop data ''type'' = JStr ''tool_call'' \<or> get_prop data ''type'' = JStr ''tool-call'')
        \<and> \<not> truthy (js_or (get_prop data ''id'') (get_prop data ''callId'')))
      \<or> ((get_prop data ''type'' = JStr ''permission_request''
            \<or> get_prop data ''type'' = JStr ''permission-request'')
          \<and> \<not> truthy (get_prop data ''id'')))"

text \<open>A message with the identifier that may have been generated blanked out.\<close>

fun without_id :: "agent_message \<Rightarrow> agent_message" where
  "without_id (ToolCall toolName args callId) = ToolCall toolName args JUndefined"
| "without_id (PermissionRequest i reason payload) = PermissionRequest JUndefined reason payload"
| "without_id m = m"

text \<open>
  The end-to-end scenario on the sample platform: listener \<open>7\<close> is registered, the
  session \<^verbatim>\<open>s1\<close> is started without an initial prompt, and \<^verbatim>\<open>hello\<close> is sent; the
  server answers with the two lines in one chunk.
\<close>

definition scenario_started :: backend where
  "scenario_started =
     snd (startSession sample_env None (Response True 200 (Some ''s1'')) FetchRejected
            (onMessage 7 new_backend))"

definition sample_chunk :: string where
  "sample_chunk = line_text_hi @ [newline] @ line_done @ [newline]"

definition scenario_sent :: backend where
  "scenario_sent =
     snd (sendPrompt sample_env ''s1'' ''hello''
            (Response True 200 (Some ([sample_chunk], StreamDone))) scenario_started)"

text \<open>A push event of type \<^verbatim>\<open>text\<close> whose session identifier is the empty string.\<close>

definition event_empty_session :: jsval where
  "event_empty_session =
     JObj [(''type'', JStr ''text''), (''content'', JStr ''x''), (''sessionId'', JStr [])]"

text \<open>The same scenario when the message request is rejected: the send throws.\<close>

definition scenario_rejected :: backend where
  "scenario_rejected =
     snd (sendPrompt sample_env ''s1'' ''hello'' FetchRejected scenario_started)"

section \<open>Line splitting\<close>

lemma split_on_nonempty: "split_on sep s \<noteq> []"
  by (induction s) (auto split: list.splits)

lemma split_on_no_sep: "sep \<notin> set s \<Longrightarrow> split_on sep s = [s]"
  by (induction s) auto

lemma last_split_on_no_sep: "sep \<notin> set (last (split_on sep s))"
  by (induction s) (auto simp: split_on_nonempty split: list.splits)

text \<open>Splitting a text that arrives in two parts: the last piece of the first part is
  continued by the second part, the pieces before it are final.\<close>

lemma split_on_append:
  "split_on sep (xs @ ys) =
     butlast (split_on sep xs) @ split_on sep (last (split_on sep xs) @ ys)"
proof (induction xs)
  case Nil
  show ?case by simp
next
  case (Cons c cs)
  show ?case
  proof (cases "c = sep")
    case True
    with Cons show ?thesis by (simp add: split_on_nonempty)
  next
    case False
    obtain l ls where l: "split_on sep cs = l # ls"
      using split_on_nonempty [of sep cs] by (cases "split_on sep cs") auto
    show ?thesis
    proof (cases ls)
      case Nil
      with False l Cons show ?thesis by simp
    next
      case (Cons a as)
      with False l Cons.IH show ?thesis by simp
    qed
  qed
qed

lemma fold_guarded:
  "fold (\<lambda>line t. if P line then f line t else t) ls s = fold f (filter P ls) s"
  by (induction ls arbitrary: s) auto

text \<open>The read loop, chunk by chunk, computes what one split of the whole text does.\<close>

lemma read_loop_Some:
  "newline \<notin> set buffer \<Longrightarrow>
   read_loop (Some f) chunks buffer s =
     (last (split_on newline (buffer @ concat chunks)),
      fold f (filter (\<lambda>l. trim l \<noteq> [])
               (butlast (split_on newline (buffer @ concat chunks)))) s)"
proof (induction chunks arbitrary: buffer s)
  case Nil
  then show ?case by (simp add: split_on_no_sep)
next
  case (Cons v rest)
  let ?L = "split_on newline (buffer @ v)"
  have eq: "split_on newline (buffer @ concat (v # rest)) =
              butlast ?L @ split_on newline (last ?L @ concat rest)"
    using split_on_append [of newline "buffer @ v" "concat rest"] by simp
  have ne: "split_on newline (last ?L @ concat rest) \<noteq> []"
    by (rule split_on_nonempty)
  have IH: "read_loop (Some f) rest (last ?L) t =
     (last (split_on newline (last ?L @ concat rest)),
      fold f (filter (\<lambda>l. trim l \<noteq> [])
               (butlast (split_on newline (last ?L @ concat rest)))) t)" for t
    by (rule Cons.IH) (rule last_split_on_no_sep)
  show ?case
    unfolding eq
    by (simp add: IH split_on_nonempty fold_guarded butlast_append ne Let_def
             del: split_on.simps)
qed

lemma sendMessage_lines:
  "sendMessage sessionId parts (Some f) (Response True status (Some (chunks, StreamDone))) s =
     (Return (), fold f (nonblank_lines chunks) s)"
proof -
  let ?ls = "split_on newline (concat chunks)"
  have ne: "?ls \<noteq> []" by (rule split_on_nonempty)
  have "filter (\<lambda>l. trim l \<noteq> []) ?ls =
          filter (\<lambda>l. trim l \<noteq> []) (butlast ?ls) @ filter (\<lambda>l. trim l \<noteq> []) [last ?ls]"
    using append_butlast_last_id [OF ne] by (metis filter_append)
  then show ?thesis
    using read_loop_Some [of "[]" f chunks s]
    by (simp add: sendMessage_def nonblank_lines_def)
qed

lemma fold_record_line: "fold record_line ls calls = calls @ ls"
  by (induction ls arbitrary: calls) (auto simp: record_line_def)

lemma trim_Nil: "trim [] = []"
  by (simp add: trim_def)

lemma nonblank_spec_lines:
  "nonblank_lines chunks = filter (\<lambda>l. trim l \<noteq> []) (spec_lines chunks)"
proof -
  let ?ls = "split_on newline (concat chunks)"
  have ne: "?ls \<noteq> []" by (rule split_on_nonempty)
  have whole: "filter (\<lambda>l. trim l \<noteq> []) ?ls =
          filter (\<lambda>l. trim l \<noteq> []) (butlast ?ls) @ filter (\<lambda>l. trim l \<noteq> []) [last ?ls]"
    using append_butlast_last_id [OF ne] by (metis filter_append)
  show ?thesis
  proof (cases "last ?ls = []")
    case True
    with whole show ?thesis
      by (simp add: nonblank_lines_def spec_lines_def trim_Nil Let_def)
  next
    case False
    with whole show ?thesis
      by (simp add: nonblank_lines_def spec_lines_def Let_def)
  qed
qed

section \<open>Claims about the transport client\<close>

text \<open>
  C2, as stated, fails. The claim asks for one callback per complete newline-terminated
  line and for a flush of the trailing partial line exactly when it is not empty. On the
  single chunk \<^verbatim>\<open>a\n\nb\n\<close> followed by one space the code calls back with \<open>a\<close> and \<open>b\<close>
  only: the empty second line and the trailing line of one space fall to the
  \<^verbatim>\<open>line.trim()\<close> guards, while the contract as worded lists four lines.
\<close>

theorem C2_counterexample:
  "snd (sendMessage ''s1'' [TextPart ''hello''] (Some record_line)
         (Response True 200
            (Some ([[CHR ''a'', newline, newline, CHR ''b'', newline, CHR '' '']], StreamDone)))
         [])
     \<noteq> spec_lines [[CHR ''a'', newline, newline, CHR ''b'', newline, CHR '' '']]"
  by (simp add: sendMessage_def spec_lines_def record_line_def trim_def is_white_space_def
        newline_def)

text \<open>
  C2, amended: for every sequence of chunks of a successful response whose stream ends
  normally, the callback is called exactly with the lines the contract lists (the
  complete lines in arrival order, then the trailing partial line) that are not blank,
  in that order, each once; blank lines are skipped, and the trailing partial line is
  flushed exactly when it is not blank. The chunking does not matter.
\<close>

theorem C2_nonblank_lines_in_order:
  "sendMessage sessionId parts (Some record_line)
     (Response True status (Some (chunks, StreamDone))) []
   = (Return (), filter (\<lambda>l. trim l \<noteq> []) (spec_lines chunks))"
  by (simp add: sendMessage_lines fold_record_line nonblank_spec_lines)

section \<open>Emitting\<close>

lemma emitted_emit [simp]: "emitted (emit m s) = emitted s @ [m]"
  by (simp add: emit_def)

lemma emitted_or_randomUUID [simp]: "emitted (snd (or_randomUUID env v s)) = emitted s"
  by (simp add: or_randomUUID_def)

lemma emitted_since_emit_upd [simp]:
  "emitted_since s (emit m (s\<lparr>uuids_drawn := n\<rparr>)) = [m]"
  "emitted_since s (emit m s) = [m]"
  "emitted_since s s = []"
  by (simp_all add: emitted_since_def emit_def)

lemma emitted_since_emit_uuid [simp]:
  "emitted_since s (emit m (snd (or_randomUUID env v s))) = [m]"
  by (simp add: emitted_since_def)

section \<open>The normalizer, family by family\<close>

lemma get_prop_type_obj: "get_prop data k = JStr t \<Longrightarrow> data \<noteq> JNull \<and> data \<noteq> JUndefined"
  by (cases data) auto

lemma process_text:
  assumes "get_prop data ''type'' = JStr t"
    and "t = ''text'' \<or> t = ''token'' \<or> t = ''content''"
  shows "processOpenCodeData env data s =
      (Return (),
       emit (ModelOutput
              (js_or (js_or (get_prop data ''content'') (get_prop data ''text''))
                     (get_prop data ''delta''))) s)"
  using assms get_prop_type_obj [OF assms(1)]
  by (elim disjE; simp add: processOpenCodeData_def)

lemma process_tool_call:
  assumes "get_prop data ''type'' = JStr t"
    and "t = ''tool_call'' \<or> t = ''tool-call''"
  shows "processOpenCodeData env data s =
      (Return (),
       emit (ToolCall
               (js_or (js_or (get_prop data ''name'') (get_prop data ''toolName''))
                      (JStr ''unknown''))
               (js_or (js_or (get_prop data ''arguments'') (get_prop data ''args'')) (JObj []))
               (fst (or_randomUUID env
                       (js_or (get_prop data ''id'') (get_prop data ''callId'')) s)))
            (snd (or_randomUUID env
                    (js_or (get_prop data ''id'') (get_prop data ''callId'')) s)))"
  using assms get_prop_type_obj [OF assms(1)]
  by (elim disjE; simp add: processOpenCodeData_def Let_def split: prod.splits)

lemma process_tool_result:
  assumes "get_prop data ''type'' = JStr t"
    and "t = ''tool_result'' \<or> t = ''tool-result''"
  shows "processOpenCodeData env data s =
      (Return (),
       emit (ToolResult
               (js_or (js_or (get_prop data ''name'') (get_prop data ''toolName''))
                      (JStr ''unknown''))
               (js_or (get_prop data ''result'') (get_prop data ''output''))
               (js_or (js_or (get_prop data ''id'') (get_prop data ''callId'')) (JStr []))) s)"
  using assms get_prop_type_obj [OF assms(1)]
  by (elim disjE; simp add: processOpenCodeData_def Let_def split: prod.splits)

lemma process_file_edit:
  assumes "get_prop data ''type'' = JStr t"
    and "t = ''file_edit'' \<or> t = ''fs-edit''"
  shows "processOpenCodeData env data s =
      (Return (),
       emit (FsEdit
               (js_or (js_or (get_prop data ''description'') (get_prop data ''summary''))
                      (JStr []))
               (get_prop data ''diff'') (get_prop data ''path'')) s)"
  using assms get_prop_type_obj [OF assms(1)]
  by (elim disjE; simp add: processOpenCodeData_def Let_def split: prod.splits)

lemma process_permission_request:
  assumes "get_prop data ''type'' = JStr t"
    and "t = ''permission_request'' \<or> t = ''permission-request''"
  shows "processOpenCodeData env data s =
      (Return (),
       emit (PermissionRequest
               (fst (or_randomUUID env (get_prop data ''id'') s))
               (js_or (js_or (get_prop data ''reason'') (get_prop data ''message''))
                      (JStr []))
               (js_or (get_prop data ''payload'') data))
            (snd (or_randomUUID env (get_prop data ''id'') s)))"
  using assms get_prop_type_obj [OF assms(1)]
  by (elim disjE; simp add: processOpenCodeData_def Let_def split: prod.splits)

lemma process_done:
  assumes "get_prop data ''type'' = JStr t"
    and "t = ''done'' \<or> t = ''complete'' \<or> t = ''finished''"
  shows "processOpenCodeData env data s = (Return (), emit (Status Idle None) s)"
  using assms get_prop_type_obj [OF assms(1)]
  by (elim disjE; simp add: processOpenCodeData_def Let_def split: prod.splits)

lemma get_prop_with_type:
  "get_prop (with_type t kvs) k = (if k = ''type'' then JStr t else get_prop (JObj kvs) k)"
  by (simp add: with_type_def update_conv)

lemma spelling_pairs_cases:
  "(u, h, v) \<in> set spelling_pairs \<Longrightarrow>
      (u = ''tool_call'' \<and> h = ''tool-call'' \<and> v = VToolCall)
    \<or> (u = ''tool_result'' \<and> h = ''tool-result'' \<and> v = VToolResult)
    \<or> (u = ''file_edit'' \<and> h = ''fs-edit'' \<and> v = VFsEdit)
    \<or> (u = ''permission_request'' \<and> h = ''permission-request''
         \<and> v = VPermissionRequest)"
  by (simp add: spelling_pairs_def)

section \<open>Claims about the normalizer\<close>

text \<open>
  C3: for each discriminator that is recognized in an underscore and in a hyphen
  spelling (\<^verbatim>\<open>tool_call\<close>/\<^verbatim>\<open>tool-call\<close>, \<^verbatim>\<open>tool_result\<close>/\<^verbatim>\<open>tool-result\<close>,
  \<^verbatim>\<open>file_edit\<close>/\<^verbatim>\<open>fs-edit\<close>, \<^verbatim>\<open>permission_request\<close>/\<^verbatim>\<open>permission-request\<close>) and for
  every record, the record with one spelling and the record with the other are both
  normalized, without an exception, to one message of the same canonical variant, the
  one of the family. The two messages are even equal, except for a permission request
  without a truthy payload, whose payload is the record itself.
\<close>

theorem C3_spellings_same_variant:
  assumes "(u, h, v) \<in> set spelling_pairs"
  shows "fst (processOpenCodeData env (with_type u kvs) s) = Return ()
       \<and> fst (processOpenCodeData env (with_type h kvs) s) = Return ()
       \<and> map variant_of (emitted_since s (snd (processOpenCodeData env (with_type u kvs) s)))
           = [v]
       \<and> map variant_of (emitted_since s (snd (processOpenCodeData env (with_type h kvs) s)))
           = [v]
       \<and> (v \<noteq> VPermissionRequest \<or> truthy (get_prop (JObj kvs) ''payload'') \<longrightarrow>
            emitted_since s (snd (processOpenCodeData env (with_type u kvs) s))
              = emitted_since s (snd (processOpenCodeData env (with_type h kvs) s)))"
proof -
  have ty: "get_prop (with_type t kvs) ''type'' = JStr t" for t
    by (simp add: get_prop_with_type)
  have rest: "k \<noteq> ''type'' \<Longrightarrow> get_prop (with_type t kvs) k = get_prop (JObj kvs) k"
    for t k
    by (simp only: get_prop_with_type if_False)
  note pair = spelling_pairs_cases [OF assms]
  show ?thesis
    using pair
  proof (elim disjE conjE)
    assume "u = ''tool_call''" "h = ''tool-call''" "v = VToolCall"
    then show ?thesis
      by (simp add: process_tool_call [OF ty] rest)
  next
    assume "u = ''tool_result''" "h = ''tool-result''" "v = VToolResult"
    then show ?thesis
      by (simp add: process_tool_result [OF ty] rest)
  next
    assume "u = ''file_edit''" "h = ''fs-edit''" "v = VFsEdit"
    then show ?thesis
      by (simp add: process_file_edit [OF ty] rest)
  next
    assume "u = ''permission_request''" "h = ''permission-request''"
      "v = VPermissionRequest"
    then show ?thesis
      by (simp add: process_permission_request [OF ty] rest js_or_def)
  qed
qed

text \<open>
  C3 at a concrete record: \<^verbatim>\<open>{name: "ls", id: "c1"}\<close> as a \<^verbatim>\<open>tool_call\<close> and as a
  \<^verbatim>\<open>tool-call\<close> gives the same tool-call message.
\<close>

theorem C3_witness:
  "(''tool_call'', ''tool-call'', VToolCall) \<in> set spelling_pairs
   \<and> emitted_since new_backend
        (snd (processOpenCodeData sample_env
               (with_type ''tool_call'' [(''name'', JStr ''ls''), (''id'', JStr ''c1'')])
               new_backend))
      = [ToolCall (JStr ''ls'') (JObj []) (JStr ''c1'')]
   \<and> emitted_since new_backend
        (snd (processOpenCodeData sample_env
               (with_type ''tool-call'' [(''name'', JStr ''ls''), (''id'', JStr ''c1'')])
               new_backend))
      = [ToolCall (JStr ''ls'') (JObj []) (JStr ''c1'')]"
proof -
  have ty: "get_prop (with_type t kvs) ''type'' = JStr t" for t kvs
    by (simp add: get_prop_with_type)
  have mem: "(''tool_call'', ''tool-call'', VToolCall) \<in> set spelling_pairs"
    by (simp add: spelling_pairs_def)
  have u: "emitted_since new_backend
        (snd (processOpenCodeData sample_env
               (with_type ''tool_call'' [(''name'', JStr ''ls''), (''id'', JStr ''c1'')])
               new_backend))
      = [ToolCall (JStr ''ls'') (JObj []) (JStr ''c1'')]"
    by (simp add: process_tool_call [OF ty] get_prop_with_type or_randomUUID_def js_or_def)
  from C3_spellings_same_variant
         [OF mem, of sample_env "[(''name'', JStr ''ls''), (''id'', JStr ''c1'')]" new_backend]
  have "emitted_since new_backend
        (snd (processOpenCodeData sample_env
               (with_type ''tool_call'' [(''name'', JStr ''ls''), (''id'', JStr ''c1'')])
               new_backend))
     = emitted_since new_backend
        (snd (processOpenCodeData sample_env
               (with_type ''tool-call'' [(''name'', JStr ''ls''), (''id'', JStr ''c1'')])
               new_backend))"
    by simp
  with mem u show ?thesis by simp
qed

text \<open>
  C4, as stated, fails: the aliases are tried with \<^verbatim>\<open>||\<close>, which skips a property that
  is present but falsy. For \<^verbatim>\<open>{type: "text", content: "", text: "x"}\<close> the first present
  property is \<^verbatim>\<open>content\<close>, the empty string, while the emitted \<open>textDelta\<close> is \<^verbatim>\<open>"x"\<close>.
\<close>

theorem C4_counterexample:
  "emitted (snd (processOpenCodeData sample_env
      (JObj [(''type'', JStr ''text''), (''content'', JStr []), (''text'', JStr ''x'')])
      new_backend))
   \<noteq> [ModelOutput
         (first_present
            [(''type'', JStr ''text''), (''content'', JStr []), (''text'', JStr ''x'')]
            [''content'', ''text'', ''delta''])]"
  by (simp add: processOpenCodeData_def js_or_def new_backend_def emit_def)

text \<open>
  C4, amended: for every record whose type is \<^verbatim>\<open>text\<close>, \<^verbatim>\<open>token\<close> or \<^verbatim>\<open>content\<close>,
  exactly one model-output is emitted, and its \<open>textDelta\<close> is the \<^verbatim>\<open>content\<close> property
  when that is truthy, otherwise the \<^verbatim>\<open>text\<close> property when that is truthy, otherwise
  the \<^verbatim>\<open>delta\<close> property (whatever it is, \<^verbatim>\<open>undefined\<close> when absent): the first truthy
  alias wins, not the first present one.
\<close>

theorem C4_first_truthy_wins:
  assumes "get_prop data ''type'' = JStr t"
    and "t = ''text'' \<or> t = ''token'' \<or> t = ''content''"
  shows "processOpenCodeData env data s =
      (Return (),
       emit (ModelOutput
              (if truthy (get_prop data ''content'') then get_prop data ''content''
               else if truthy (get_prop data ''text'') then get_prop data ''text''
               else get_prop data ''delta'')) s)"
  using process_text [OF assms] by (simp add: js_or_def)

text \<open>C4 at a \<^verbatim>\<open>token\<close> record with an empty \<^verbatim>\<open>content\<close> and a \<^verbatim>\<open>text\<close>.\<close>

theorem C4_witness:
  "processOpenCodeData sample_env
      (JObj [(''type'', JStr ''token''), (''content'', JStr []), (''text'', JStr ''x'')])
      new_backend
    = (Return (), emit (ModelOutput (JStr ''x'')) new_backend)"
  using C4_first_truthy_wins
          [of "JObj [(''type'', JStr ''token''), (''content'', JStr []), (''text'', JStr ''x'')]"
              "''token''" sample_env new_backend]
  by simp

text \<open>
  C9, as stated, fails: a tool call without \<^verbatim>\<open>id\<close> and \<^verbatim>\<open>callId\<close> gets a new identifier
  from \<^verbatim>\<open>crypto.randomUUID\<close> at every application, so two applications to the record
  \<^verbatim>\<open>{type: "tool_call"}\<close>, one after the other, emit two different messages.
\<close>

theorem C9_counterexample:
  "emitted_since new_backend
      (snd (processOpenCodeData sample_env (JObj [(''type'', JStr ''tool_call'')]) new_backend))
   \<noteq> emitted_since
      (snd (processOpenCodeData sample_env (JObj [(''type'', JStr ''tool_call'')]) new_backend))
      (snd (processOpenCodeData sample_env (JObj [(''type'', JStr ''tool_call'')])
         (snd (processOpenCodeData sample_env (JObj [(''type'', JStr ''tool_call'')])
                 new_backend))))"
  by (simp add: processOpenCodeData_def js_or_def new_backend_def emit_def or_randomUUID_def
      emitted_since_def sample_env_def sample_uuid_def)

text \<open>
  C9, amended: two applications of the normalization to the same record, in any two
  states and on any platform, end the same way and emit the same messages up to the
  identifier of a tool call or permission request; and when the record needs no
  generated identifier (it is no tool call or permission request, or it carries a
  truthy \<^verbatim>\<open>id\<close>, for a tool call also \<^verbatim>\<open>callId\<close>), the two results are identical: the
  same message with the same fields, or no message in both.
\<close>

theorem C9_same_up_to_generated_id:
  "fst (processOpenCodeData env data s) = fst (processOpenCodeData env' data s')
   \<and> map without_id (emitted_since s (snd (processOpenCodeData env data s)))
       = map without_id (emitted_since s' (snd (processOpenCodeData env' data s')))
   \<and> (\<not> needs_fresh_id data \<longrightarrow>
        emitted_since s (snd (processOpenCodeData env data s))
          = emitted_since s' (snd (processOpenCodeData env' data s')))"
proof -
  have a: "fst (processOpenCodeData env data s) = fst (processOpenCodeData env' data s')
      \<and> map without_id (emitted_since s (snd (processOpenCodeData env data s)))
          = map without_id (emitted_since s' (snd (processOpenCodeData env' data s')))"
    by (simp add: processOpenCodeData_def Let_def or_randomUUID_def split: prod.splits)
  have b: "emitted_since s (snd (processOpenCodeData env data s))
          = emitted_since s' (snd (processOpenCodeData env' data s'))"
    if "\<not> needs_fresh_id data"
    using that
    by (auto simp add: processOpenCodeData_def Let_def or_randomUUID_def needs_fresh_id_def
          split: prod.splits)
  from a b show ?thesis by blast
qed

text \<open>
  C9 at the record \<^verbatim>\<open>{type: "text", content: "Hi"}\<close>, which needs no identifier: applied
  twice in a row, it emits the same message both times.
\<close>

theorem C9_witness:
  "\<not> needs_fresh_id (JObj [(''type'', JStr ''text''), (''content'', JStr ''Hi'')])
   \<and> emitted_since new_backend
        (snd (processOpenCodeData sample_env
               (JObj [(''type'', JStr ''text''), (''content'', JStr ''Hi'')]) new_backend))
     = emitted_since
        (snd (processOpenCodeData sample_env
               (JObj [(''type'', JStr ''text''), (''content'', JStr ''Hi'')]) new_backend))
        (snd (processOpenCodeData sample_env
               (JObj [(''type'', JStr ''text''), (''content'', JStr ''Hi'')])
               (snd (processOpenCodeData sample_env
                      (JObj [(''type'', JStr ''text''), (''content'', JStr ''Hi'')])
                      new_backend))))"
proof -
  have nf: "\<not> needs_fresh_id (JObj [(''type'', JStr ''text''), (''content'', JStr ''Hi'')])"
    by (simp add: needs_fresh_id_def)
  from nf C9_same_up_to_generated_id
         [of sample_env "JObj [(''type'', JStr ''text''), (''content'', JStr ''Hi'')]"
             new_backend sample_env
             "snd (processOpenCodeData sample_env
                    (JObj [(''type'', JStr ''text''), (''content'', JStr ''Hi'')]) new_backend)"]
  show ?thesis by blast
qed

section \<open>Sample runs\<close>

lemma sample_parse_rejects:
  "sample_parse ''oops'' = None" "sample_parse '' '' = None"
  by (simp_all add: sample_parse_def line_text_hi_def line_done_def)

lemma sample_parse_lines:
  "json_parse sample_env line_text_hi
     = Some (JObj [(''type'', JStr ''text''), (''content'', JStr ''Hi'')])"
  "json_parse sample_env line_done = Some (JObj [(''type'', JStr ''done'')])"
  by (simp_all add: sample_env_def sample_parse_def line_text_hi_def line_done_def)

lemma sample_chunk_lines:
  "nonblank_lines [sample_chunk] = [line_text_hi, line_done]"
  by (simp add: nonblank_lines_def sample_chunk_def line_text_hi_def line_done_def
        newline_def trim_def is_white_space_def)

lemma scenario_started_eq:
  "scenario_started =
     new_backend\<lparr>eventSource := True, eventHandlers := [0], messageHandlers := [7],
       currentSessionId := Some ''s1'', eventUnsubscribe := Some 0,
       emitted := [Status Running None], deliveries := [(7, Status Running None)],
       closures := 1\<rparr>"
  by (simp add: scenario_started_def startSession_def createSession_def connectToEvents_def
        onMessage_def new_backend_def emit_def sample_env_def Let_def)

lemma scenario_sent_eq:
  "scenario_sent =
     scenario_started\<lparr>responseComplete := Some 0, responseResolve := None, promises := 1,
        settled := [0],
        emitted := [Status Running None, Status Running None, ModelOutput (JStr ''Hi''),
                    Status Idle None, Status Idle None],
        deliveries := [(7, Status Running None), (7, Status Running None),
                       (7, ModelOutput (JStr ''Hi'')), (7, Status Idle None),
                       (7, Status Idle None)]\<rparr>"
  by (simp add: scenario_sent_def sendPrompt_def sendMessage_lines sample_chunk_lines
        handleStreamChunk_def sample_parse_lines processOpenCodeData_def js_or_def
        scenario_started_eq new_backend_def emit_def Let_def)

lemma scenario_rejected_eq:
  "scenario_rejected =
     scenario_started\<lparr>responseComplete := Some 0, responseResolve := Some 0, promises := 1,
        emitted := [Status Running None, Status Running None],
        deliveries := [(7, Status Running None), (7, Status Running None)]\<rparr>"
  by (simp add: scenario_rejected_def sendPrompt_def sendMessage_def scenario_started_eq
        new_backend_def emit_def Let_def)

section \<open>Claims about stream lines and push events\<close>

text \<open>The callback of the stream never throws: whatever happens lands in its \<^verbatim>\<open>catch\<close>.\<close>

lemma handleStreamChunk_returns: "fst (handleStreamChunk env chunk s) = Return ()"
  by (simp add: handleStreamChunk_def split: option.splits prod.splits outcome.splits)

text \<open>
  C5: for every stream line that fails JSON parsing, in every state, the adapter returns
  normally; when the line is not blank it emits exactly one message, the model-output
  whose \<open>textDelta\<close> is the line itself, and when the line is blank (empty or white space
  only) it emits nothing and leaves the state as it is.
\<close>

theorem C5_malformed_line_passed_through:
  assumes "json_parse env chunk = None"
  shows "handleStreamChunk env chunk s =
           (Return (), if trim chunk \<noteq> [] then emit (ModelOutput (JStr chunk)) s else s)
       \<and> emitted_since s (snd (handleStreamChunk env chunk s)) =
           (if trim chunk \<noteq> [] then [ModelOutput (JStr chunk)] else [])"
  using assms by (simp add: handleStreamChunk_def)

text \<open>C5 at the lines \<^verbatim>\<open>oops\<close> and a single space, neither of which parses.\<close>

theorem C5_witness:
  "json_parse sample_env ''oops'' = None
   \<and> handleStreamChunk sample_env ''oops'' new_backend
       = (Return (), emit (ModelOutput (JStr ''oops'')) new_backend)
   \<and> json_parse sample_env '' '' = None
   \<and> handleStreamChunk sample_env '' '' new_backend = (Return (), new_backend)"
proof -
  have a: "json_parse sample_env ''oops'' = None" "json_parse sample_env '' '' = None"
    by (simp_all add: sample_env_def sample_parse_rejects)
  have t: "trim ''oops'' \<noteq> []" "trim '' '' = []"
    by (simp_all add: trim_def is_white_space_def)
  from C5_malformed_line_passed_through [OF a(1), of new_backend]
       C5_malformed_line_passed_through [OF a(2), of new_backend] a t
  show ?thesis by simp
qed

lemma fan_out_discarded:
  "handleOpenCodeEvent env event s = (Return (), s) \<Longrightarrow>
   fan_out env event hs s = (Return (), s)"
  by (induction hs) auto

text \<open>
  C6, as stated, fails: the filter \<^verbatim>\<open>event.sessionId && ...\<close> lets an event through whose
  session identifier is falsy. In the started scenario the current session is \<^verbatim>\<open>s1\<close>;
  the event \<^verbatim>\<open>{type: "text", content: "x", sessionId: ""}\<close> has a different session
  identifier, and listener \<open>7\<close> is called with its text.
\<close>

theorem C6_counterexample:
  "get_prop event_empty_session ''sessionId'' \<noteq> JStr ''s1''
   \<and> currentSessionId scenario_started = Some ''s1''
   \<and> observed 7 (snd (handleOpenCodeEvent sample_env event_empty_session scenario_started))
       = observed 7 scenario_started @ [ModelOutput (JStr ''x'')]"
  by (simp add: scenario_started_eq event_empty_session_def handleOpenCodeEvent_def
        processOpenCodeData_def js_or_def emit_def observed_def new_backend_def)

text \<open>
  C6, amended: in every state, a push event whose \<^verbatim>\<open>sessionId\<close> is a non-empty string
  different from the current session handle (also when there is no current session) is
  discarded: handling it returns normally and leaves the state as it is, so nothing is
  emitted and no listener is called; the same holds for the whole delivery of the push
  connection, through every subscribed closure.
\<close>

theorem C6_foreign_session_discarded:
  assumes "get_prop event ''sessionId'' = JStr sid"
    and "sid \<noteq> []"
    and "currentSessionId s \<noteq> Some sid"
  shows "handleOpenCodeEvent env event s = (Return (), s)
       \<and> (json_parse env payload = Some event \<longrightarrow> onmessage env payload s = s)"
proof -
  have ev: "event \<noteq> JNull \<and> event \<noteq> JUndefined"
    using assms(1) by (rule get_prop_type_obj)
  have h: "handleOpenCodeEvent env event s = (Return (), s)"
    using assms ev by (simp add: handleOpenCodeEvent_def strict_neq_handle_def)
  show ?thesis
    using h fan_out_discarded [OF h] by (simp add: onmessage_def)
qed

text \<open>C6 at an event of session \<^verbatim>\<open>s2\<close> while the current session is \<^verbatim>\<open>s1\<close>.\<close>

theorem C6_witness:
  "get_prop (JObj [(''type'', JStr ''text''), (''content'', JStr ''x''),
                   (''sessionId'', JStr ''s2'')]) ''sessionId'' = JStr ''s2''
   \<and> ''s2'' \<noteq> []
   \<and> currentSessionId scenario_started \<noteq> Some ''s2''
   \<and> handleOpenCodeEvent sample_env
        (JObj [(''type'', JStr ''text''), (''content'', JStr ''x''),
               (''sessionId'', JStr ''s2'')])
        scenario_started = (Return (), scenario_started)"
proof -
  have a: "get_prop (JObj [(''type'', JStr ''text''), (''content'', JStr ''x''),
                   (''sessionId'', JStr ''s2'')]) ''sessionId'' = JStr ''s2''"
    by simp
  have b: "''s2'' \<noteq> []" by simp
  have c: "currentSessionId scenario_started \<noteq> Some ''s2''"
    by (simp add: scenario_started_eq)
  from C6_foreign_session_discarded [OF a b c, of sample_env] a b c
  show ?thesis by simp
qed

text \<open>
  C10: for every event record whose \<^verbatim>\<open>sessionId\<close> is absent or a string, in every state:
  the event is discarded exactly when its \<^verbatim>\<open>sessionId\<close> is a non-empty string different
  from the current session handle; in every other case, in particular when the
  \<^verbatim>\<open>sessionId\<close> is absent or the empty string, and whatever the current handle is, the
  event is handed to the normalization as it is.
\<close>

theorem C10_session_filter:
  assumes "map_of kvs ''sessionId'' = None
           \<or> (\<exists>sid. map_of kvs ''sessionId'' = Some (JStr sid))"
  shows "handleOpenCodeEvent env (JObj kvs) s =
           (if \<exists>sid. map_of kvs ''sessionId'' = Some (JStr sid) \<and> sid \<noteq> []
                     \<and> currentSessionId s \<noteq> Some sid
            then (Return (), s)
            else processOpenCodeData env (JObj kvs) s)"
  using assms
  by (auto simp add: handleOpenCodeEvent_def strict_neq_handle_def)

text \<open>
  C10 at an event without \<^verbatim>\<open>sessionId\<close> in the started scenario: it reaches listener
  \<open>7\<close>.
\<close>

theorem C10_witness:
  "map_of [(''type'', JStr ''text''), (''content'', JStr ''x'')] ''sessionId'' = None
   \<and> currentSessionId scenario_started = Some ''s1''
   \<and> observed 7 (snd (handleOpenCodeEvent sample_env
                         (JObj [(''type'', JStr ''text''), (''content'', JStr ''x'')])
                         scenario_started))
       = observed 7 scenario_started @ [ModelOutput (JStr ''x'')]"
proof -
  have "handleOpenCodeEvent sample_env
          (JObj [(''type'', JStr ''text''), (''content'', JStr ''x'')]) scenario_started
      = processOpenCodeData sample_env
          (JObj [(''type'', JStr ''text''), (''content'', JStr ''x'')]) scenario_started"
    using C10_session_filter [of "[(''type'', JStr ''text''), (''content'', JStr ''x'')]"
             sample_env scenario_started]
    by simp
  then show ?thesis
    by (simp add: scenario_started_eq processOpenCodeData_def js_or_def emit_def observed_def
          new_backend_def)
qed

section \<open>Claims about completion and disposal\<close>

lemma race_promise_first:
  "Fired t \<notin> set pre \<Longrightarrow> race p t (pre @ Resolved p # post) = Some (Return ())"
  by (induction pre) auto

lemma race_timer_first:
  "Resolved p \<notin> set pre \<Longrightarrow>
   race p t (pre @ Fired t # post) = Some (Throw (Error ''Response timeout''))"
  by (induction pre) auto

lemma race_waiting:
  "Resolved p \<notin> set later \<Longrightarrow> Fired t \<notin> set later \<Longrightarrow> race p t later = None"
  by (induction later) auto

text \<open>
  C7: without a stored promise the call returns at once, arms no timer and changes
  nothing. With a stored promise \<open>p\<close> it arms one timer, of the delay given or of 120000
  when none is given, and changes nothing else: in particular it does not touch the
  pending promise, its resolver or the connection. The call then returns when \<open>p\<close> is
  already resolved, or as soon as \<open>p\<close> is resolved before the timer fires; it throws
  \<^verbatim>\<open>Error('Response timeout')\<close> when the timer fires before \<open>p\<close> is resolved; and it is still
  waiting as long as neither has happened. Time is the order of what happens; the delay
  of the timer is what the call hands to \<^verbatim>\<open>setTimeout\<close>.
\<close>

theorem C7_wait_semantics:
  "(responseComplete s = None \<longrightarrow>
      waitForResponseComplete timeoutArg s = (Returned, s)
      \<and> wait_outcome timeoutArg s later = Some (Return ()))
   \<and> (responseComplete s = Some p \<longrightarrow>
      waitForResponseComplete timeoutArg s =
        (Racing p (length (timers s)),
         s\<lparr>timers := timers s @ [case timeoutArg of None \<Rightarrow> 120000 | Some ms \<Rightarrow> ms]\<rparr>)
      \<and> (p \<in> set (settled s) \<longrightarrow> wait_outcome timeoutArg s later = Some (Return ()))
      \<and> (Fired (length (timers s)) \<notin> set pre \<longrightarrow>
           wait_outcome timeoutArg s (pre @ Resolved p # post) = Some (Return ()))
      \<and> (p \<notin> set (settled s) \<and> Resolved p \<notin> set pre \<longrightarrow>
           wait_outcome timeoutArg s (pre @ Fired (length (timers s)) # post)
             = Some (Throw (Error ''Response timeout'')))
      \<and> (p \<notin> set (settled s) \<and> Resolved p \<notin> set later
            \<and> Fired (length (timers s)) \<notin> set later \<longrightarrow>
           wait_outcome timeoutArg s later = None))"
  by (simp add: waitForResponseComplete_def wait_outcome_def race_promise_first race_timer_first
        race_waiting Let_def)

text \<open>
  C7 on a new adapter (nothing pending) and after a send whose request was rejected
  (promise \<open>0\<close> pending for ever): with the default the timer is armed with 120000; the
  promise first, the call returns; the timer first, it throws.
\<close>

theorem C7_witness:
  "responseComplete new_backend = None
   \<and> waitForResponseComplete None new_backend = (Returned, new_backend)
   \<and> responseComplete scenario_rejected = Some 0
   \<and> fst (waitForResponseComplete None scenario_rejected) = Racing 0 0
   \<and> timers (snd (waitForResponseComplete None scenario_rejected)) = [120000]
   \<and> wait_outcome (Some 50) scenario_rejected [Resolved 0, Fired 0] = Some (Return ())
   \<and> wait_outcome (Some 50) scenario_rejected [Fired 0, Resolved 0]
       = Some (Throw (Error ''Response timeout''))"
proof -
  have a: "responseComplete new_backend = None"
    by (simp add: new_backend_def)
  have b: "responseComplete scenario_rejected = Some 0"
    "settled scenario_rejected = []" "timers scenario_rejected = []"
    by (simp_all add: scenario_rejected_eq scenario_started_eq new_backend_def)
  from C7_wait_semantics [of new_backend None "[]" 0 "[]" "[]"] a
  have c: "waitForResponseComplete None new_backend = (Returned, new_backend)"
    by simp
  from C7_wait_semantics [of scenario_rejected None "[]" 0 "[]" "[]"] b
  have d: "fst (waitForResponseComplete None scenario_rejected) = Racing 0 0"
    "timers (snd (waitForResponseComplete None scenario_rejected)) = [120000]"
    by simp_all
  from C7_wait_semantics [of scenario_rejected "Some 50" "[]" 0 "[]" "[Fired 0]"] b
  have e: "wait_outcome (Some 50) scenario_rejected [Resolved 0, Fired 0] = Some (Return ())"
    by simp
  from C7_wait_semantics [of scenario_rejected "Some 50" "[]" 0 "[]" "[Resolved 0]"] b
  have f: "wait_outcome (Some 50) scenario_rejected [Fired 0, Resolved 0]
       = Some (Throw (Error ''Response timeout''))"
    by simp
  from a b c d e f show ?thesis by simp
qed

text \<open>
  What \<^verbatim>\<open>dispose\<close> does, in every state: it returns normally; afterwards no closure is
  subscribed, the connection is closed and the listeners are gone; \<^verbatim>\<open>emit\<close> is called
  with \<^verbatim>\<open>status(stopped)\<close>, but after the listeners were cleared, so no listener is
  called. A second \<^verbatim>\<open>dispose\<close> only calls \<^verbatim>\<open>emit\<close> once more.
\<close>

lemma dispose_eq:
  "dispose s =
     (Return (),
      s\<lparr>eventSource := False, eventHandlers := [], messageHandlers := [],
        eventUnsubscribe := None, emitted := emitted s @ [Status Stopped None]\<rparr>)"
  by (cases s)
     (simp add: dispose_def unsubscribe_def disconnect_def emit_def Let_def
        split: option.splits)

lemma dispose_delivers_nothing: "deliveries (snd (dispose s)) = deliveries s"
  by (simp add: dispose_eq)

lemma dispose_twice:
  "dispose (snd (dispose s)) =
     (Return (),
      (snd (dispose s))\<lparr>emitted := emitted (snd (dispose s)) @ [Status Stopped None]\<rparr>)"
  by (simp add: dispose_eq)

text \<open>
  C8 does not hold of the code: in the started scenario listener \<open>7\<close> is registered when
  \<^verbatim>\<open>dispose\<close> is called; \<^verbatim>\<open>dispose\<close> returns normally and calls \<^verbatim>\<open>emit\<close> with
  \<^verbatim>\<open>status(stopped)\<close>, yet the listener has seen \<^verbatim>\<open>status(running)\<close> only, before and
  after: the final status is delivered to nobody.
\<close>

theorem C8_stopped_reaches_no_listener:
  "messageHandlers scenario_started = [7]
   \<and> fst (dispose scenario_started) = Return ()
   \<and> emitted_since scenario_started (snd (dispose scenario_started)) = [Status Stopped None]
   \<and> observed 7 scenario_started = [Status Running None]
   \<and> observed 7 (snd (dispose scenario_started)) = [Status Running None]"
  by (simp add: dispose_eq scenario_started_eq new_backend_def emitted_since_def observed_def)

section \<open>The end-to-end send cycle\<close>

text \<open>
  C1, as stated, fails: in the scenario the transport delivers exactly the two lines;
  after the start the listener has seen \<^verbatim>\<open>status(running)\<close>, but the send cycle does not
  show it \<^verbatim>\<open>status(running)\<close>, the text and one \<^verbatim>\<open>status(idle)\<close> only: the \<^verbatim>\<open>done\<close> line
  emits \<^verbatim>\<open>status(idle)\<close>, and so does the end of the stream.
\<close>

theorem C1_counterexample:
  "nonblank_lines [sample_chunk] = [line_text_hi, line_done]
   \<and> observed 7 scenario_started = [Status Running None]
   \<and> observed 7 scenario_sent \<noteq>
        observed 7 scenario_started
          @ [Status Running None, ModelOutput (JStr ''Hi''), Status Idle None]"
  by (simp add: sample_chunk_lines scenario_sent_eq scenario_started_eq observed_def
        new_backend_def)

text \<open>
  C1, amended: on a platform whose parser reads the two lines as the records they
  spell, with one listener registered on a new adapter: the start (without initial
  prompt) returns the session and shows the listener \<^verbatim>\<open>status(running)\<close>; then a send of
  \<^verbatim>\<open>hello\<close>, for which the transport delivers exactly the two lines (in whatever chunks),
  returns normally and shows the listener, in order and nothing else,
  \<^verbatim>\<open>status(running)\<close>, \<^verbatim>\<open>model-output{textDelta: "Hi"}\<close>, \<^verbatim>\<open>status(idle)\<close> and a second
  \<^verbatim>\<open>status(idle)\<close>; afterwards a wait for completion returns, whatever happens later.
\<close>

theorem C1_send_cycle:
  assumes "json_parse env line_text_hi
             = Some (JObj [(''type'', JStr ''text''), (''content'', JStr ''Hi'')])"
    and "json_parse env line_done = Some (JObj [(''type'', JStr ''done'')])"
    and "nonblank_lines chunks = [line_text_hi, line_done]"
  shows "(let started = startSession env None (Response True st (Some sid)) other
                          (onMessage h new_backend);
              sent = sendPrompt env sid ''hello''
                       (Response True st' (Some (chunks, StreamDone))) (snd started)
          in fst started = Return sid
           \<and> observed h (snd started) = [Status Running None]
           \<and> fst sent = Return ()
           \<and> observed h (snd sent) =
               observed h (snd started)
                 @ [Status Running None, ModelOutput (JStr ''Hi''), Status Idle None,
                    Status Idle None]
           \<and> wait_outcome timeoutArg (snd sent) later = Some (Return ()))"
proof -
  define started where
    "started = startSession env None (Response True st (Some sid)) other
                 (onMessage h new_backend)"
  define sent where
    "sent = sendPrompt env sid ''hello'' (Response True st' (Some (chunks, StreamDone)))
              (snd started)"
  have st: "started =
     (Return sid,
      new_backend\<lparr>eventSource := has_EventSource env, eventHandlers := [0],
        messageHandlers := [h], currentSessionId := Some sid, eventUnsubscribe := Some 0,
        emitted := [Status Running None], deliveries := [(h, Status Running None)],
        closures := 1\<rparr>)"
    unfolding started_def
    by (simp add: startSession_def createSession_def connectToEvents_def onMessage_def
          new_backend_def emit_def Let_def)
  have c1: "handleStreamChunk env line_text_hi t
              = (Return (), emit (ModelOutput (JStr ''Hi'')) t)" for t
    by (simp add: handleStreamChunk_def assms(1) processOpenCodeData_def js_or_def)
  have c2: "handleStreamChunk env line_done t = (Return (), emit (Status Idle None) t)" for t
    by (simp add: handleStreamChunk_def assms(2) processOpenCodeData_def js_or_def)
  have se: "sent =
     (Return (),
      (snd started)\<lparr>responseComplete := Some 0, responseResolve := None, promises := 1,
        settled := [0],
        emitted := [Status Running None, Status Running None, ModelOutput (JStr ''Hi''),
                    Status Idle None, Status Idle None],
        deliveries := [(h, Status Running None), (h, Status Running None),
                       (h, ModelOutput (JStr ''Hi'')), (h, Status Idle None),
                       (h, Status Idle None)]\<rparr>)"
    unfolding sent_def
    by (simp add: sendPrompt_def sendMessage_lines assms(3) c1 c2 st new_backend_def emit_def
          Let_def)
  have "fst started = Return sid
           \<and> observed h (snd started) = [Status Running None]
           \<and> fst sent = Return ()
           \<and> observed h (snd sent) =
               observed h (snd started)
                 @ [Status Running None, ModelOutput (JStr ''Hi''), Status Idle None,
                    Status Idle None]
           \<and> wait_outcome timeoutArg (snd sent) later = Some (Return ())"
    by (simp add: se, simp add: st observed_def wait_outcome_def waitForResponseComplete_def
          new_backend_def)
  then show ?thesis
    unfolding started_def sent_def Let_def .
qed

text \<open>C1 in the scenario on the sample platform.\<close>

theorem C1_witness:
  "json_parse sample_env line_text_hi
     = Some (JObj [(''type'', JStr ''text''), (''content'', JStr ''Hi'')])
   \<and> json_parse sample_env line_done = Some (JObj [(''type'', JStr ''done'')])
   \<and> nonblank_lines [sample_chunk] = [line_text_hi, line_done]
   \<and> observed 7 scenario_sent =
       observed 7 scenario_started
         @ [Status Running None, ModelOutput (JStr ''Hi''), Status Idle None, Status Idle None]
   \<and> wait_outcome None scenario_sent [] = Some (Return ())"
  using C1_send_cycle [OF sample_parse_lines sample_chunk_lines,
          of 200 "''s1''" FetchRejected 7 200 None "[]"]
    sample_parse_lines sample_chunk_lines
  by (simp add: Let_def scenario_sent_def scenario_started_def)

end
